theory Spec2Isabelle
  imports Complex_Main
begin

section \<open>XQuAD task adapters (lm\_eval/tasks/xquad.py)\<close>

text \<open>
  The module defines two task classes, \<^verbatim>\<open>xquad_en\<close> and \<^verbatim>\<open>xquad_ar\<close>, and two
  module-level helpers, \<^verbatim>\<open>_squad_metric\<close> and \<^verbatim>\<open>_squad_agg\<close>. Every method is
  embedded as a HOL function of the same name, prefixed with its class. Python
  exceptions are values of the type \<open>error\<close>; a method that can raise returns
  \<open>error + 'a\<close>, with \<open>Inl\<close> for the exception. The version assertion in each class
  body runs once, when the module is imported, and belongs to no method; it is not
  embedded.
\<close>

subsection \<open>Python values and exceptions\<close>

datatype error =
    KeyError string
  | TypeError
  | ValueError
  | UnboundLocalError string
  | OverflowError

text \<open>
  The dynamically typed values the methods receive and build. The type \<open>'f\<close> stands
  for Python's \<^verbatim>\<open>float\<close>, and \<^verbatim>\<open>math.exp\<close> is a parameter of the functions that
  call it; the type \<open>double\<close> and the function \<open>math_exp_double\<close> below are the
  binary64 numbers and the exponential on them. A dictionary with string keys is an
  association list in insertion order, read with \<open>map_of\<close>.
\<close>

datatype 'f pyval =
    PNone
  | PBool bool
  | PInt int
  | PFloat 'f
  | PStr string
  | PList "'f pyval list"
  | PTuple "'f pyval list"
  | PDict "(string \<times> 'f pyval) list"

text \<open>
  What iterating over a value yields (used by tuple unpacking): the elements of a
  list or tuple, the one-character strings of a string, the keys of a dictionary;
  any other value is not iterable and raises \<^verbatim>\<open>TypeError\<close>.
\<close>

fun py_iter :: "'f pyval \<Rightarrow> error + 'f pyval list" where
  "py_iter (PList xs) = Inr xs"
| "py_iter (PTuple xs) = Inr xs"
| "py_iter (PStr s) = Inr (map (\<lambda>c. PStr [c]) s)"
| "py_iter (PDict kvs) = Inr (map (\<lambda>kv. PStr (fst kv)) kvs)"
| "py_iter _ = Inl TypeError"

text \<open>
  Unpacking into exactly two targets, \<^verbatim>\<open>a, b = v\<close>: \<^verbatim>\<open>TypeError\<close> when \<open>v\<close> is
  not iterable, \<^verbatim>\<open>ValueError\<close> when it does not yield exactly two values.
\<close>

definition unpack2 :: "'f pyval \<Rightarrow> error + 'f pyval \<times> 'f pyval" where
  "unpack2 v =
     (case py_iter v of
        Inl e \<Rightarrow> Inl e
      | Inr xs \<Rightarrow> (case xs of [a, b] \<Rightarrow> Inr (a, b) | _ \<Rightarrow> Inl ValueError))"

text \<open>Subscription \<^verbatim>\<open>d[k]\<close> of a dictionary: \<^verbatim>\<open>KeyError\<close> on a missing key.\<close>

definition getitem :: "(string \<rightharpoonup> 'v) \<Rightarrow> string \<Rightarrow> error + 'v" where
  "getitem d k = (case d k of None \<Rightarrow> Inl (KeyError k) | Some v \<Rightarrow> Inr v)"

subsection \<open>The task object and the requests\<close>

text \<open>
  A document is a dictionary (a row of the dataset). \<open>self\<close> is a record of what
  the methods read from the task object: \<^verbatim>\<open>self.dataset\<close> (split name to
  documents), \<^verbatim>\<open>self.save_examples\<close>, and the values returned by the inherited
  methods \<^verbatim>\<open>self.stopping_criteria()\<close> and \<^verbatim>\<open>self.max_generation_length()\<close>.
\<close>

type_synonym 'f doc = "string \<rightharpoonup> 'f pyval"

record 'f task =
  dataset :: "string \<rightharpoonup> 'f doc list"
  save_examples :: bool
  stopping_criteria :: "'f pyval"
  max_generation_length :: "'f pyval"

text \<open>
  Modelled from the spec: the request factory \<^verbatim>\<open>rf\<close> of \<^verbatim>\<open>lm_eval.base\<close> is not
  among the sources. \<^verbatim>\<open>rf.greedy_until(ctx, request_args)\<close> builds the spec's
  GenerationRequest and \<^verbatim>\<open>rf.loglikelihood(ctx, continuation)\<close> its
  LikelihoodRequest; each constructor keeps the arguments it is called with.
\<close>

datatype 'f request =
    GreedyUntil string "'f pyval"
  | LogLikelihood string string

subsection \<open>The module-level helpers\<close>

text \<open>
  The scoring service is the \<^verbatim>\<open>datasets\<close> library: \<^verbatim>\<open>load_metric\<close> returns a
  metric object whose \<^verbatim>\<open>compute\<close> maps the predictions and the references to a
  dictionary of named values. Both are parameters. So that the number of
  invocations can be stated, the state of the library records every call of
  \<^verbatim>\<open>compute\<close>, in order, with the name of the metric and both arguments.
\<close>

type_synonym ('a, 'v) metric = "'a list \<Rightarrow> 'a list \<Rightarrow> error + (string \<times> 'v) list"

record ('a, 'v) datasets =
  load_metric :: "string \<Rightarrow> error + ('a, 'v) metric"
  computed :: "(string \<times> 'a list \<times> 'a list) list"

definition squad_metric ::
  "'a list \<Rightarrow> 'a list \<Rightarrow> ('a, 'v) datasets \<Rightarrow> (error + (string \<times> 'v) list) \<times> ('a, 'v) datasets" where
  "squad_metric predictions references ds =
     (case load_metric ds ''squad_v2'' of
        Inl e \<Rightarrow> (Inl e, ds)
      | Inr metric \<Rightarrow>
          (metric predictions references,
           ds\<lparr>computed := computed ds @ [(''squad_v2'', predictions, references)]\<rparr>))"

text \<open>
  \<^verbatim>\<open>zip(*rows)\<close>: no row gives nothing; otherwise the \<open>i\<close>-th result collects the
  \<open>i\<close>-th element of every row, and the results stop with the shortest row.
\<close>

function zip_star :: "'a list list \<Rightarrow> 'a list list" where
  "zip_star rows =
     (if rows = [] \<or> [] \<in> set rows then []
      else map hd rows # zip_star (map tl rows))"
  by pat_completeness auto
termination
proof (relation "measure (\<lambda>rows. length (hd rows))")
  show "wf (measure (\<lambda>rows::'a list list. length (hd rows)))"
    by simp
next
  fix rows :: "'a list list"
  assume "\<not> (rows = [] \<or> [] \<in> set rows)"
  then obtain r rs where "rows = r # rs" and "r \<noteq> []"
    by (cases rows) auto
  then show "(map tl rows, rows) \<in> measure (\<lambda>rows. length (hd rows))"
    by simp
qed

declare zip_star.simps [simp del]

text \<open>
  \<^verbatim>\<open>_squad_agg\<close>. Every item is a 2-tuple, so the star passes the rows
  \<open>[p, r]\<close>; unpacking the result into two targets raises \<^verbatim>\<open>ValueError\<close> unless
  \<^verbatim>\<open>zip\<close> yields exactly two tuples.
\<close>

definition squad_agg ::
  "string \<Rightarrow> ('a \<times> 'a) list \<Rightarrow> ('a, 'v) datasets \<Rightarrow> (error + 'v) \<times> ('a, 'v) datasets" where
  "squad_agg key items ds =
     (case zip_star (map (\<lambda>(p, r). [p, r]) items) of
        [predictions, references] \<Rightarrow>
          (case squad_metric predictions references ds of
             (Inl e, ds') \<Rightarrow> (Inl e, ds')
           | (Inr d, ds') \<Rightarrow> (getitem (map_of d) key, ds'))
      | _ \<Rightarrow> (Inl ValueError, ds))"

subsection \<open>Class xquad\_en\<close>

definition xquad_en_DATASET_PATH :: string where
  "xquad_en_DATASET_PATH = ''xquad''"

definition xquad_en_DATASET_NAME :: string where
  "xquad_en_DATASET_NAME = ''xquad.en''"

definition xquad_en_has_training_docs :: "'f task \<Rightarrow> bool" where
  "xquad_en_has_training_docs self = False"

definition xquad_en_has_validation_docs :: "'f task \<Rightarrow> bool" where
  "xquad_en_has_validation_docs self = True"

definition xquad_en_has_test_docs :: "'f task \<Rightarrow> bool" where
  "xquad_en_has_test_docs self = False"

definition xquad_en_training_docs :: "'f task \<Rightarrow> error + 'f doc list" where
  "xquad_en_training_docs self = getitem (dataset self) ''train''"

definition xquad_en_validation_docs :: "'f task \<Rightarrow> error + 'f doc list" where
  "xquad_en_validation_docs self = getitem (dataset self) ''validation''"

definition xquad_en_construct_requests ::
  "'f task \<Rightarrow> 'f doc \<Rightarrow> string \<Rightarrow> (string \<rightharpoonup> 'f pyval) \<Rightarrow> error + 'f request \<times> 'f request" where
  "xquad_en_construct_requests self doc ctx args =
     (case getitem args ''num_fewshot'' of
        Inl e \<Rightarrow> Inl e
      | Inr num_fewshot \<Rightarrow>
          (let request_args = PDict
                 [(''stopping_criteria'', stopping_criteria self),
                  (''max_generation_length'', max_generation_length self),
                  (''num_fewshot'', num_fewshot)];
               cont_request = GreedyUntil ctx request_args;
               is_unanswerable = LogLikelihood ctx ('' '' @ ''unanswerable'')
           in Inr (cont_request, is_unanswerable)))"

text \<open>
  \<^verbatim>\<open>process_results\<close>. The statements run in the source's order: the nested
  unpacking of \<open>results\<close>, \<^verbatim>\<open>exp\<close> (the parameter \<open>math_exp\<close>), the two dictionary
  literals with their reads of \<open>doc\<close>, the conditional binding of the local
  \<^verbatim>\<open>example\<close>, and the \<^verbatim>\<open>return\<close>. A local that may be unbound is an
  \<open>option\<close>: reading it while it is \<open>None\<close> raises \<^verbatim>\<open>UnboundLocalError\<close>. The
  returned dictionary is an association list from metric name to the tuple
  \<^verbatim>\<open>(predictions, references)\<close>. The source reads \<^verbatim>\<open>doc['id']\<close> and
  \<^verbatim>\<open>doc['answers']\<close> more than once; \<open>doc\<close> is not changed in between, so each
  is read once here, at its first place.
\<close>

definition xquad_en_process_results ::
  "('f pyval \<Rightarrow> error + 'f) \<Rightarrow> 'f task \<Rightarrow> 'f doc \<Rightarrow> 'f pyval \<Rightarrow>
     error + (string \<times> 'f pyval \<times> 'f pyval) list \<times> 'f pyval" where
  "xquad_en_process_results math_exp self doc results =
     (case unpack2 results of
        Inl e \<Rightarrow> Inl e
      | Inr (pred, res2) \<Rightarrow>
     (case unpack2 res2 of
        Inl e \<Rightarrow> Inl e
      | Inr (logprob_unanswerable, _) \<Rightarrow>
     (case math_exp logprob_unanswerable of
        Inl e \<Rightarrow> Inl e
      | Inr no_answer_probability \<Rightarrow>
     (case getitem doc ''id'' of
        Inl e \<Rightarrow> Inl e
      | Inr doc_id \<Rightarrow>
     (case getitem doc ''answers'' of
        Inl e \<Rightarrow> Inl e
      | Inr doc_answers \<Rightarrow>
          (let predictions = PDict
                 [(''id'', doc_id),
                  (''prediction_text'', pred),
                  (''no_answer_probability'', PFloat no_answer_probability)];
               references = PDict
                 [(''id'', doc_id),
                  (''answers'', doc_answers)];
               example =
                 (if save_examples self
                  then Some (PDict [(''pred'', pred), (''target'', doc_answers)])
                  else None)
           in (case example of
                 None \<Rightarrow> Inl (UnboundLocalError ''example'')
               | Some ex \<Rightarrow>
                   Inr ([(''exact'', (predictions, references)),
                         (''f1'', (predictions, references)),
                         (''HasAns_exact'', (predictions, references)),
                         (''HasAns_f1'', (predictions, references)),
                         (''NoAns_exact'', (predictions, references)),
                         (''NoAns_f1'', (predictions, references)),
                         (''best_exact'', (predictions, references)),
                         (''best_f1'', (predictions, references))],
                        ex))))))))"

text \<open>\<^verbatim>\<open>partial(_squad_agg, k)\<close> is the partial application \<open>squad_agg k\<close>.\<close>

definition xquad_en_aggregation ::
  "'f task \<Rightarrow> (string \<times> (('a \<times> 'a) list \<Rightarrow> ('a, 'v) datasets \<Rightarrow> (error + 'v) \<times> ('a, 'v) datasets)) list" where
  "xquad_en_aggregation self =
     [(''exact'', squad_agg ''exact''),
      (''f1'', squad_agg ''f1''),
      (''HasAns_exact'', squad_agg ''HasAns_exact''),
      (''HasAns_f1'', squad_agg ''HasAns_f1''),
      (''NoAns_exact'', squad_agg ''NoAns_exact''),
      (''NoAns_f1'', squad_agg ''NoAns_f1''),
      (''best_exact'', squad_agg ''best_exact''),
      (''best_f1'', squad_agg ''best_f1'')]"

definition xquad_en_higher_is_better :: "'f task \<Rightarrow> (string \<times> bool) list" where
  "xquad_en_higher_is_better self =
     [(''exact'', True),
      (''f1'', True),
      (''HasAns_exact'', True),
      (''HasAns_f1'', True),
      (''NoAns_exact'', True),
      (''NoAns_f1'', True),
      (''best_exact'', True),
      (''best_f1'', True)]"

subsection \<open>Class xquad\_ar\<close>

definition xquad_ar_DATASET_PATH :: string where
  "xquad_ar_DATASET_PATH = ''xquad''"

definition xquad_ar_DATASET_NAME :: string where
  "xquad_ar_DATASET_NAME = ''xquad.ar''"

definition xquad_ar_has_training_docs :: "'f task \<Rightarrow> bool" where
  "xquad_ar_has_training_docs self = False"

definition xquad_ar_has_validation_docs :: "'f task \<Rightarrow> bool" where
  "xquad_ar_has_validation_docs self = True"

definition xquad_ar_has_test_docs :: "'f task \<Rightarrow> bool" where
  "xquad_ar_has_test_docs self = False"

definition xquad_ar_training_docs :: "'f task \<Rightarrow> error + 'f doc list" where
  "xquad_ar_training_docs self = getitem (dataset self) ''train''"

definition xquad_ar_validation_docs :: "'f task \<Rightarrow> error + 'f doc list" where
  "xquad_ar_validation_docs self = getitem (dataset self) ''validation''"

definition xquad_ar_construct_requests ::
  "'f task \<Rightarrow> 'f doc \<Rightarrow> string \<Rightarrow> (string \<rightharpoonup> 'f pyval) \<Rightarrow> error + 'f request \<times> 'f request" where
  "xquad_ar_construct_requests self doc ctx args =
     (case getitem args ''num_fewshot'' of
        Inl e \<Rightarrow> Inl e
      | Inr num_fewshot \<Rightarrow>
          (let request_args = PDict
                 [(''stopping_criteria'', stopping_criteria self),
                  (''max_generation_length'', max_generation_length self),
                  (''num_fewshot'', num_fewshot)];
               cont_request = GreedyUntil ctx request_args;
               is_unanswerable = LogLikelihood ctx ('' '' @ ''unanswerable'')
           in Inr (cont_request, is_unanswerable)))"

definition xquad_ar_process_results ::
  "('f pyval \<Rightarrow> error + 'f) \<Rightarrow> 'f task \<Rightarrow> 'f doc \<Rightarrow> 'f pyval \<Rightarrow>
     error + (string \<times> 'f pyval \<times> 'f pyval) list \<times> 'f pyval" where
  "xquad_ar_process_results math_exp self doc results =
     (case unpack2 results of
        Inl e \<Rightarrow> Inl e
      | Inr (pred, res2) \<Rightarrow>
     (case unpack2 res2 of
        Inl e \<Rightarrow> Inl e
      | Inr (logprob_unanswerable, _) \<Rightarrow>
     (case math_exp logprob_unanswerable of
        Inl e \<Rightarrow> Inl e
      | Inr no_answer_probability \<Rightarrow>
     (case getitem doc ''id'' of
        Inl e \<Rightarrow> Inl e
      | Inr doc_id \<Rightarrow>
     (case getitem doc ''answers'' of
        Inl e \<Rightarrow> Inl e
      | Inr doc_answers \<Rightarrow>
          (let predictions = PDict
                 [(''id'', doc_id),
                  (''prediction_text'', pred),
                  (''no_answer_probability'', PFloat no_answer_probability)];
               references = PDict
                 [(''id'', doc_id),
                  (''answers'', doc_answers)];
               example =
                 (if save_examples self
                  then Some (PDict [(''pred'', pred), (''target'', doc_answers)])
                  else None)
           in (case example of
                 None \<Rightarrow> Inl (UnboundLocalError ''example'')
               | Some ex \<Rightarrow>
                   Inr ([(''exact'', (predictions, references)),
                         (''f1'', (predictions, references)),
                         (''HasAns_exact'', (predictions, references)),
                         (''HasAns_f1'', (predictions, references)),
                         (''best_exact_thresh'', (predictions, references)),
                         (''best_f1_thresh'', (predictions, references)),
                         (''best_exact'', (predictions, references)),
                         (''best_f1'', (predictions, references))],
                        ex))))))))"

definition xquad_ar_aggregation ::
  "'f task \<Rightarrow> (string \<times> (('a \<times> 'a) list \<Rightarrow> ('a, 'v) datasets \<Rightarrow> (error + 'v) \<times> ('a, 'v) datasets)) list" where
  "xquad_ar_aggregation self =
     [(''exact'', squad_agg ''exact''),
      (''f1'', squad_agg ''f1''),
      (''HasAns_exact'', squad_agg ''HasAns_exact''),
      (''HasAns_f1'', squad_agg ''HasAns_f1''),
      (''best_exact_thresh'', squad_agg ''best_exact_thresh''),
      (''best_f1_thresh'', squad_agg ''best_f1_thresh''),
      (''best_exact'', squad_agg ''best_exact''),
      (''best_f1'', squad_agg ''best_f1'')]"

definition xquad_ar_higher_is_better :: "'f task \<Rightarrow> (string \<times> bool) list" where
  "xquad_ar_higher_is_better self =
     [(''exact'', True),
      (''f1'', True),
      (''HasAns_exact'', True),
      (''HasAns_f1'', True),
      (''best_exact_thresh'', True),
      (''best_f1_thresh'', True),
      (''best_exact'', True),
      (''best_f1'', True)]"

subsection \<open>Floats and the exponential\<close>

text \<open>
  Python's \<^verbatim>\<open>float\<close> is an IEEE 754 binary64 number: a finite value, an infinity
  or a NaN. A finite value is kept as the real number it denotes. Comparisons with
  a NaN are false.
\<close>

datatype double = Finite real | PosInf | NegInf | NaN



text \<open>
  Rounding a positive real to binary64, to nearest with ties to even. The exponent
  is that of the binade of \<open>r\<close>, but not below \<open>-1022\<close> (the subnormal range); the
  spacing of the doubles there is \<open>ulp\<close>, and \<open>r\<close> goes to the nearest multiple of
  it. \<open>binary64_max\<close> is the largest finite double.
\<close>

definition round_half_even :: "real \<Rightarrow> int" where
  "round_half_even q =
     (let f = \<lfloor>q\<rfloor> in
      if q - of_int f < 1 / 2 then f
      else if 1 / 2 < q - of_int f then f + 1
      else if even f then f else f + 1)"

definition binary64_round :: "real \<Rightarrow> real" where
  "binary64_round r =
     (let e = max \<lfloor>log 2 r\<rfloor> (- 1022);
          ulp = 2 powr (of_int e - 52)
      in of_int (round_half_even (r / ulp)) * ulp)"

definition binary64_max :: real where
  "binary64_max = (2 - 2 powr (- 52)) * 2 powr 1023"

text \<open>
  \<^verbatim>\<open>math.exp\<close> of the standard library, which the module imports as \<^verbatim>\<open>exp\<close>, is
  taken as the correctly rounded exponential: on a finite argument the real
  exponential rounded to binary64, which underflows to \<open>0.0\<close> without an error and
  raises \<^verbatim>\<open>OverflowError\<close> when the rounded value exceeds the largest double;
  \<open>exp(-inf)\<close> is \<open>0.0\<close>, \<open>exp(inf)\<close> is \<open>inf\<close> and \<open>exp(nan)\<close> is \<open>nan\<close>. An int or
  a bool argument is converted to a float first (\<^verbatim>\<open>OverflowError\<close> when the int is
  too large); any other value raises \<^verbatim>\<open>TypeError\<close>.
\<close>

fun double_exp :: "double \<Rightarrow> error + double" where
  "double_exp (Finite x) =
     (let y = binary64_round (exp x)
      in if binary64_max < y then Inl OverflowError else Inr (Finite y))"
| "double_exp PosInf = Inr PosInf"
| "double_exp NegInf = Inr (Finite 0)"
| "double_exp NaN = Inr NaN"

definition float_of_int :: "int \<Rightarrow> error + double" where
  "float_of_int i =
     (if i = 0 then Inr (Finite 0)
      else let y = binary64_round \<bar>of_int i\<bar>
           in if binary64_max < y then Inl OverflowError
              else Inr (Finite (if i < 0 then - y else y)))"

definition math_exp_double :: "double pyval \<Rightarrow> error + double" where
  "math_exp_double x =
     (case x of
        PFloat d \<Rightarrow> double_exp d
      | PInt i \<Rightarrow> (case float_of_int i of Inl e \<Rightarrow> Inl e | Inr d \<Rightarrow> double_exp d)
      | PBool b \<Rightarrow> double_exp (Finite (if b then 1 else 0))
      | _ \<Rightarrow> Inl TypeError)"

subsection \<open>Concrete inputs\<close>

text \<open>
  The inputs of the examples below. The document is a row of the validation split,
  the only split of the dataset; \<open>paris_results\<close> are the results of its two
  requests, and \<open>paris_prediction\<close> and \<open>paris_reference\<close> the dictionaries built from
  them. \<open>paris_metric\<close> stands for a scoring service that reports \<open>100.0\<close> in the
  fields \<^verbatim>\<open>exact\<close> and \<^verbatim>\<open>f1\<close>.
\<close>

definition paris_doc :: "double doc" where
  "paris_doc =
     [''id'' \<mapsto> PStr ''1'',
      ''context'' \<mapsto> PStr ''Paris is the capital of France.'',
      ''question'' \<mapsto> PStr ''What is the capital of France?'',
      ''answers'' \<mapsto> PDict [(''text'', PList [PStr ''Paris'']), (''answer_start'', PList [PInt 0])]]"

definition paris_results :: "double pyval" where
  "paris_results = PTuple [PStr ''Paris'', PTuple [PFloat (Finite 0), PBool False]]"

definition paris_prediction :: "double pyval" where
  "paris_prediction = PDict
     [(''id'', PStr ''1''), (''prediction_text'', PStr ''Paris''),
      (''no_answer_probability'', PFloat (Finite 1))]"

definition paris_reference :: "double pyval" where
  "paris_reference = PDict
     [(''id'', PStr ''1''),
      (''answers'', PDict [(''text'', PList [PStr ''Paris'']), (''answer_start'', PList [PInt 0])])]"

definition paris_metric :: "(double pyval, double) metric" where
  "paris_metric predictions references = Inr [(''exact'', Finite 100), (''f1'', Finite 100)]"

definition paris_datasets :: "(double pyval, double) datasets" where
  "paris_datasets = \<lparr>load_metric = (\<lambda>name. Inr paris_metric), computed = []\<rparr>"

definition paris_task :: "bool \<Rightarrow> double task" where
  "paris_task save =
     \<lparr>dataset = [''validation'' \<mapsto> [paris_doc]],
      save_examples = save,
      stopping_criteria = PNone,
      max_generation_length = PNone\<rparr>"

section \<open>Properties\<close>

subsection \<open>Rounding and the exponential\<close>

lemma round_half_even_of_int: "round_half_even (of_int n) = n"
  by (simp add: round_half_even_def)







lemma binary64_round_one: "binary64_round 1 = 1"
proof -
  have "(1::real) / 2 powr (- 52) = 2 powr 52"
    by (simp add: powr_minus field_simps)
  also have "\<dots> = of_int (2 ^ 52)"
    by (simp add: powr_numeral)
  finally have q: "(1::real) / 2 powr (- 52) = of_int (2 ^ 52)" .
  have "binary64_round 1 = of_int (round_half_even (1 / 2 powr (- 52))) * 2 powr (- 52)"
    by (simp add: binary64_round_def Let_def)
  also have "\<dots> = of_int (2 ^ 52) * 2 powr (- 52)"
    by (simp only: q round_half_even_of_int)
  also have "\<dots> = 1"
    using q by (simp add: field_simps)
  finally show ?thesis .
qed






lemma binary64_max_ge_one: "1 \<le> binary64_max"
proof -
  have "(2::real) powr (- 52) \<le> 2 powr 0"
    by (simp only: powr_le_cancel_iff)
  then have "(1::real) \<le> 2 - 2 powr (- 52)"
    by simp
  moreover have "(2::real) powr 0 \<le> 2 powr 1023"
    by (simp only: powr_le_cancel_iff)
  then have "(1::real) \<le> 2 powr 1023"
    by simp
  ultimately have "(1::real) * 1 \<le> (2 - 2 powr (- 52)) * 2 powr 1023"
    by (intro mult_mono) simp_all
  then show ?thesis
    by (simp add: binary64_max_def)
qed


lemma double_exp_zero: "double_exp (Finite 0) = Inr (Finite 1)"
  using binary64_max_ge_one by (simp add: binary64_round_one)






text \<open>The same for \<^verbatim>\<open>math.exp\<close> on a float argument.\<close>

lemma math_exp_double_PFloat: "math_exp_double (PFloat d) = double_exp d"
  by (simp add: math_exp_double_def)

lemma math_exp_double_zero: "math_exp_double (PFloat (Finite 0)) = Inr (Finite 1)"
  by (simp add: math_exp_double_PFloat double_exp_zero del: double_exp.simps)



subsection \<open>Auxiliary facts\<close>

lemma zip_star_step:
  "rows \<noteq> [] \<Longrightarrow> [] \<notin> set rows \<Longrightarrow> zip_star rows = map hd rows # zip_star (map tl rows)"
  by (subst zip_star.simps) simp

lemma zip_star_stop: "[] \<in> set rows \<Longrightarrow> zip_star rows = []"
  by (subst zip_star.simps) simp

lemma zip_star_Nil: "zip_star [] = []"
  by (subst zip_star.simps) simp

text \<open>
  Unzipping: on a non-empty sequence of 2-tuples, \<^verbatim>\<open>zip(*items)\<close> yields exactly the
  tuple of first components and the tuple of second components.
\<close>

lemma zip_star_pairs:
  assumes "items \<noteq> []"
  shows "zip_star (map (\<lambda>(p, r). [p, r]) items) = [map fst items, map snd items]"
proof -
  let ?rows = "map (\<lambda>(p, r). [p, r]) items"
  let ?rows1 = "map (\<lambda>(p, r). [r]) items"
  have r0: "?rows \<noteq> []" "[] \<notin> set ?rows"
    using assms by auto
  have h0: "map hd ?rows = map fst items" and t0: "map tl ?rows = ?rows1"
    by (auto simp: case_prod_beta)
  have r1: "?rows1 \<noteq> []" "[] \<notin> set ?rows1"
    using assms by auto
  have h1: "map hd ?rows1 = map snd items"
    by (auto simp: case_prod_beta)
  have "[] \<in> set (map tl ?rows1)"
    using assms by (cases items) auto
  then have z2: "zip_star (map tl ?rows1) = []"
    by (rule zip_star_stop)
  have "zip_star ?rows = map hd ?rows # zip_star (map tl ?rows)"
    using r0 by (rule zip_star_step)
  also have "\<dots> = map fst items # zip_star ?rows1"
    by (simp only: h0 t0)
  also have "zip_star ?rows1 = map hd ?rows1 # zip_star (map tl ?rows1)"
    using r1 by (rule zip_star_step)
  also have "\<dots> = [map snd items]"
    by (simp only: h1 z2)
  finally show ?thesis .
qed

lemma squad_agg_nonempty:
  assumes "items \<noteq> []" and "load_metric ds ''squad_v2'' = Inr metric"
    and "metric (map fst items) (map snd items) = Inr d"
  shows "squad_agg k items ds =
     (case map_of d k of None \<Rightarrow> Inl (KeyError k) | Some v \<Rightarrow> Inr v,
      ds\<lparr>computed := computed ds @ [(''squad_v2'', map fst items, map snd items)]\<rparr>)"
  using assms by (simp add: squad_agg_def zip_star_pairs squad_metric_def getitem_def)

text \<open>On an empty sequence \<^verbatim>\<open>zip\<close> yields nothing and the unpacking fails.\<close>

lemma squad_agg_empty: "squad_agg k [] ds = (Inl ValueError, ds)"
  by (simp add: squad_agg_def zip_star_Nil)

lemma py_iter_Inl: "py_iter v = Inl e \<Longrightarrow> e = TypeError"
  by (cases v) auto

lemma unpack2_cases:
  "unpack2 v = Inl TypeError \<or> unpack2 v = Inl ValueError \<or>
   (\<exists>a b. py_iter v = Inr [a, b] \<and> unpack2 v = Inr (a, b))"
  by (auto simp: unpack2_def split: sum.splits list.splits dest: py_iter_Inl)

lemma unpack2_Inr: "py_iter v = Inr [a, b] \<Longrightarrow> unpack2 v = Inr (a, b)"
  by (simp add: unpack2_def)


text \<open>Without the key \<^verbatim>\<open>num_fewshot\<close> the read of \<open>args\<close> raises and no request is built.\<close>

lemma construct_requests_KeyError:
  assumes "args ''num_fewshot'' = None"
  shows "xquad_en_construct_requests self doc ctx args = Inl (KeyError ''num_fewshot'')"
    and "xquad_ar_construct_requests self doc ctx args = Inl (KeyError ''num_fewshot'')"
  using assms
  by (simp_all add: xquad_en_construct_requests_def xquad_ar_construct_requests_def getitem_def)


lemmas paris_defs =
  paris_doc_def paris_task_def paris_results_def math_exp_double_zero unpack2_def getitem_def

text \<open>
  With \<^verbatim>\<open>save_examples\<close> off, neither \<^verbatim>\<open>process_results\<close> returns, whatever the
  document and the results are.
\<close>

lemma process_results_needs_save_examples:
  assumes "\<not> save_examples self"
  shows "xquad_en_process_results math_exp self doc results \<noteq> Inr out"
    and "xquad_ar_process_results math_exp self doc results \<noteq> Inr out"
  using assms
  by (auto simp: xquad_en_process_results_def xquad_ar_process_results_def split: sum.splits prod.splits)

subsection \<open>The claims\<close>

text \<open>
  Claim C1: with \<^verbatim>\<open>save_examples\<close> False, \<^verbatim>\<open>process_results\<close> still returns a
  well-defined second value and never fails with an unbound variable. The code
  does not: \<^verbatim>\<open>example\<close> is bound only inside the \<^verbatim>\<open>if\<close>, and the \<^verbatim>\<open>return\<close> reads
  it. On the well-formed document and results below, both variants raise
  \<^verbatim>\<open>UnboundLocalError\<close>.
\<close>

theorem process_results_example_unbound:
  "xquad_en_process_results math_exp_double (paris_task False) paris_doc paris_results =
     Inl (UnboundLocalError ''example'') \<and>
   xquad_ar_process_results math_exp_double (paris_task False) paris_doc paris_results =
     Inl (UnboundLocalError ''example'')"
  by (simp add: xquad_en_process_results_def xquad_ar_process_results_def paris_defs)

text \<open>
  Claim C2: for every document, context and run args (a dictionary that holds the
  number of few shots under \<^verbatim>\<open>num_fewshot\<close>), \<^verbatim>\<open>construct_requests\<close> returns exactly
  one generation request followed by one likelihood request; both carry the same
  context, and the continuation of the likelihood request is the literal
  \<^verbatim>\<open>" unanswerable"\<close>, whatever the document is.
\<close>

theorem construct_requests_pair:
  assumes "args ''num_fewshot'' = Some n"
  shows "xquad_en_construct_requests self doc ctx args =
     Inr (GreedyUntil ctx (PDict
            [(''stopping_criteria'', stopping_criteria self),
             (''max_generation_length'', max_generation_length self),
             (''num_fewshot'', n)]),
          LogLikelihood ctx '' unanswerable'')"
  using assms by (simp add: xquad_en_construct_requests_def getitem_def)

theorem construct_requests_pair_witness:
  "xquad_en_construct_requests (paris_task True) paris_doc ''What is the capital of France?''
     [''num_fewshot'' \<mapsto> PInt 0] =
     Inr (GreedyUntil ''What is the capital of France?'' (PDict
            [(''stopping_criteria'', PNone),
             (''max_generation_length'', PNone),
             (''num_fewshot'', PInt 0)]),
          LogLikelihood ''What is the capital of France?'' '' unanswerable'')"
  using construct_requests_pair [of "[''num_fewshot'' \<mapsto> PInt 0]" "PInt 0" "paris_task True"
      paris_doc "''What is the capital of France?''"]
  by (simp add: paris_task_def)

text \<open>
  Claim C3: for every declared metric name \<open>k\<close> and every non-empty sequence of
  (prediction, reference) tuples, the aggregator that \<^verbatim>\<open>aggregation()\<close> gives for \<open>k\<close>
  unzips the sequence, calls the scoring service exactly once, with the full list of
  predictions and the full list of references, and returns field \<open>k\<close> of the
  dictionary the service returns (\<^verbatim>\<open>KeyError\<close> when the dictionary has no such
  field). The call is the one entry added to \<open>computed\<close>.
\<close>

theorem aggregator_scores_batch_once:
  assumes "(k, agg) \<in> set (xquad_en_aggregation self) \<or> (k, agg) \<in> set (xquad_ar_aggregation self)"
    and "items \<noteq> []"
    and "load_metric ds ''squad_v2'' = Inr metric"
    and "metric (map fst items) (map snd items) = Inr d"
  shows "agg items ds =
     (case map_of d k of None \<Rightarrow> Inl (KeyError k) | Some v \<Rightarrow> Inr v,
      ds\<lparr>computed := computed ds @ [(''squad_v2'', map fst items, map snd items)]\<rparr>)"
proof -
  from assms(1) have "agg = squad_agg k"
    by (auto simp: xquad_en_aggregation_def xquad_ar_aggregation_def)
  then show ?thesis
    using squad_agg_nonempty [OF assms(2-4)] by simp
qed

theorem aggregator_scores_batch_once_witness:
  "(''f1'', squad_agg ''f1'') \<in> set (xquad_en_aggregation (paris_task True)) \<and>
   squad_agg ''f1'' [(paris_prediction, paris_reference)] paris_datasets =
     (Inr (Finite 100),
      paris_datasets\<lparr>computed := [(''squad_v2'', [paris_prediction], [paris_reference])]\<rparr>)"
  using aggregator_scores_batch_once [of "''f1''" "squad_agg ''f1''" "paris_task True"
      "[(paris_prediction, paris_reference)]" paris_datasets paris_metric
      "[(''exact'', Finite 100), (''f1'', Finite 100)]"]
  by (simp add: xquad_en_aggregation_def paris_datasets_def paris_metric_def)



text \<open>
  Claim C5: for each variant, \<^verbatim>\<open>aggregation()\<close> and \<^verbatim>\<open>higher_is_better()\<close> have the
  same set of metric-name keys.
\<close>

theorem aggregation_higher_is_better_keys:
  "set (map fst (xquad_en_aggregation self)) = set (map fst (xquad_en_higher_is_better self)) \<and>
   set (map fst (xquad_ar_aggregation self)) = set (map fst (xquad_ar_higher_is_better self))"
  by (simp add: xquad_en_aggregation_def xquad_en_higher_is_better_def
      xquad_ar_aggregation_def xquad_ar_higher_is_better_def)




text \<open>
  Claim C7: for each variant, \<^verbatim>\<open>has_training_docs()\<close> and \<^verbatim>\<open>has_test_docs()\<close> are
  False and \<^verbatim>\<open>has_validation_docs()\<close> is True.
\<close>

theorem validation_split_only:
  "\<not> xquad_en_has_training_docs self \<and> \<not> xquad_en_has_test_docs self \<and>
   xquad_en_has_validation_docs self \<and>
   \<not> xquad_ar_has_training_docs self \<and> \<not> xquad_ar_has_test_docs self \<and>
   xquad_ar_has_validation_docs self"
  by (simp add: xquad_en_has_training_docs_def xquad_en_has_test_docs_def
      xquad_en_has_validation_docs_def xquad_ar_has_training_docs_def
      xquad_ar_has_test_docs_def xquad_ar_has_validation_docs_def)

text \<open>
  C8 as stated has \<^verbatim>\<open>training_docs()\<close> return an empty sequence without failing. On
  a dataset with a validation split only, \<^verbatim>\<open>self.dataset["train"]\<close> raises
  \<^verbatim>\<open>KeyError\<close>.
\<close>

theorem training_docs_no_train_split:
  "xquad_en_training_docs (paris_task True) = Inl (KeyError ''train'') \<and>
   xquad_ar_training_docs (paris_task True) = Inl (KeyError ''train'')"
  by (simp add: xquad_en_training_docs_def xquad_ar_training_docs_def getitem_def paris_task_def)

text \<open>
  Claim C8 (amended): \<^verbatim>\<open>has_training_docs()\<close> and \<^verbatim>\<open>has_test_docs()\<close> are False;
  \<^verbatim>\<open>training_docs()\<close> returns the \<^verbatim>\<open>train\<close> split of the loaded dataset as it is,
  and raises \<^verbatim>\<open>KeyError\<close> when the dataset has no such split.
\<close>

theorem training_docs_reads_train_split:
  "\<not> xquad_en_has_training_docs self \<and> \<not> xquad_en_has_test_docs self \<and>
   \<not> xquad_ar_has_training_docs self \<and> \<not> xquad_ar_has_test_docs self \<and>
   xquad_en_training_docs self =
     (case dataset self ''train'' of None \<Rightarrow> Inl (KeyError ''train'') | Some docs \<Rightarrow> Inr docs) \<and>
   xquad_ar_training_docs self =
     (case dataset self ''train'' of None \<Rightarrow> Inl (KeyError ''train'') | Some docs \<Rightarrow> Inr docs)"
  by (simp add: xquad_en_has_training_docs_def xquad_en_has_test_docs_def
      xquad_ar_has_training_docs_def xquad_ar_has_test_docs_def
      xquad_en_training_docs_def xquad_ar_training_docs_def getitem_def)

text \<open>
  C9 as stated has \<^verbatim>\<open>process_results\<close> fail whenever \<open>results\<close> is not a generated
  string followed by a (log-probability, is-greedy) pair. Given two likelihood
  results, the code takes the first pair as the generated text and returns a
  mapping.
\<close>

theorem process_results_accepts_pair_as_text:
  "xquad_en_process_results math_exp_double (paris_task True) paris_doc
     (PTuple [PTuple [PFloat (Finite 0), PBool False], PTuple [PFloat (Finite 0), PBool True]]) =
   Inr (map (\<lambda>k. (k,
          PDict [(''id'', PStr ''1''),
                 (''prediction_text'', PTuple [PFloat (Finite 0), PBool False]),
                 (''no_answer_probability'', PFloat (Finite 1))],
          paris_reference))
          [''exact'', ''f1'', ''HasAns_exact'', ''HasAns_f1'', ''NoAns_exact'', ''NoAns_f1'',
           ''best_exact'', ''best_f1''],
        PDict [(''pred'', PTuple [PFloat (Finite 0), PBool False]),
               (''target'', PDict [(''text'', PList [PStr ''Paris'']), (''answer_start'', PList [PInt 0])])])"
  by (simp add: xquad_en_process_results_def paris_defs paris_reference_def Let_def)

text \<open>
  Claim C9 (amended): if \<open>results\<close> does not unpack into exactly two elements, the
  second of which unpacks into exactly two elements, the first of them a
  log-probability that \<^verbatim>\<open>exp\<close> accepts, then \<^verbatim>\<open>process_results\<close> returns no mapping: a
  failed unpacking raises \<^verbatim>\<open>TypeError\<close> or \<^verbatim>\<open>ValueError\<close>, and an error of \<^verbatim>\<open>exp\<close> is
  raised as it is. The types of the generated text and of the is-greedy flag are
  not checked.
\<close>

theorem process_results_malformed:
  "(\<not> (\<exists>pred res2 logprob_unanswerable is_greedy.
          py_iter results = Inr [pred, res2] \<and>
          py_iter res2 = Inr [logprob_unanswerable, is_greedy]) \<longrightarrow>
      xquad_en_process_results math_exp self doc results \<in> {Inl TypeError, Inl ValueError} \<and>
      xquad_ar_process_results math_exp self doc results \<in> {Inl TypeError, Inl ValueError}) \<and>
   (\<forall>pred res2 logprob_unanswerable is_greedy e.
      py_iter results = Inr [pred, res2] \<and>
      py_iter res2 = Inr [logprob_unanswerable, is_greedy] \<and>
      math_exp logprob_unanswerable = Inl e \<longrightarrow>
      xquad_en_process_results math_exp self doc results = Inl e \<and>
      xquad_ar_process_results math_exp self doc results = Inl e)"
proof (intro conjI impI allI)
  assume bad: "\<not> (\<exists>pred res2 logprob_unanswerable is_greedy.
          py_iter results = Inr [pred, res2] \<and>
          py_iter res2 = Inr [logprob_unanswerable, is_greedy])"
  consider (outer) "unpack2 results = Inl TypeError \<or> unpack2 results = Inl ValueError"
    | (inner) pred res2 where "py_iter results = Inr [pred, res2]"
        and "unpack2 results = Inr (pred, res2)"
    using unpack2_cases [of results] by blast
  then have "xquad_en_process_results math_exp self doc results \<in> {Inl TypeError, Inl ValueError} \<and>
      xquad_ar_process_results math_exp self doc results \<in> {Inl TypeError, Inl ValueError}"
  proof cases
    case outer
    then show ?thesis
      by (auto simp: xquad_en_process_results_def xquad_ar_process_results_def)
  next
    case inner
    with bad have "\<not> (\<exists>a b. py_iter res2 = Inr [a, b])"
      by blast
    with unpack2_cases [of res2]
    have "unpack2 res2 = Inl TypeError \<or> unpack2 res2 = Inl ValueError"
      by blast
    with inner show ?thesis
      by (auto simp: xquad_en_process_results_def xquad_ar_process_results_def)
  qed
  then show "xquad_en_process_results math_exp self doc results \<in> {Inl TypeError, Inl ValueError}"
    and "xquad_ar_process_results math_exp self doc results \<in> {Inl TypeError, Inl ValueError}"
    by simp_all
next
  fix pred res2 logprob_unanswerable is_greedy e
  assume a: "py_iter results = Inr [pred, res2] \<and>
      py_iter res2 = Inr [logprob_unanswerable, is_greedy] \<and>
      math_exp logprob_unanswerable = Inl e"
  then show "xquad_en_process_results math_exp self doc results = Inl e"
    by (simp add: xquad_en_process_results_def unpack2_Inr)
  from a show "xquad_ar_process_results math_exp self doc results = Inl e"
    by (simp add: xquad_ar_process_results_def unpack2_Inr)
qed

theorem process_results_malformed_witness:
  "xquad_en_process_results math_exp_double (paris_task True) paris_doc (PList [PStr ''Paris'']) =
     Inl ValueError \<and>
   xquad_ar_process_results math_exp_double (paris_task True) paris_doc
     (PTuple [PStr ''Paris'', PFloat (Finite 0)]) = Inl TypeError \<and>
   xquad_en_process_results math_exp_double (paris_task True) paris_doc
     (PTuple [PStr ''Paris'', PTuple [PStr ''unanswerable'', PBool False]]) = Inl TypeError"
proof -
  note t = process_results_malformed [where math_exp = math_exp_double
      and self = "paris_task True" and doc = paris_doc]
  from t [of "PList [PStr ''Paris'']", THEN conjunct1]
  have "xquad_en_process_results math_exp_double (paris_task True) paris_doc (PList [PStr ''Paris''])
      = Inl ValueError"
    by (simp add: xquad_en_process_results_def unpack2_def)
  moreover from t [of "PTuple [PStr ''Paris'', PFloat (Finite 0)]", THEN conjunct1]
  have "xquad_ar_process_results math_exp_double (paris_task True) paris_doc
      (PTuple [PStr ''Paris'', PFloat (Finite 0)]) = Inl TypeError"
    by (simp add: xquad_ar_process_results_def unpack2_def)
  moreover have "math_exp_double (PStr ''unanswerable'') = Inl TypeError"
    by (simp add: math_exp_double_def)
  with t [of "PTuple [PStr ''Paris'', PTuple [PStr ''unanswerable'', PBool False]]",
      THEN conjunct2, rule_format, of "PStr ''Paris''" "PTuple [PStr ''unanswerable'', PBool False]"
      "PStr ''unanswerable''" "PBool False" TypeError]
  have "xquad_en_process_results math_exp_double (paris_task True) paris_doc
      (PTuple [PStr ''Paris'', PTuple [PStr ''unanswerable'', PBool False]]) = Inl TypeError"
    by simp
  ultimately show ?thesis
    by simp
qed

text \<open>
  Claim C10: the two variants build equal requests on every document, context and
  \<open>args\<close> (and fail alike), and their \<^verbatim>\<open>process_results\<close> agree up to the metric
  names; the variants differ in the dataset name and in the declared metric names.
\<close>

theorem variants_differ_only_in_names:
  "xquad_en_construct_requests self doc ctx args = xquad_ar_construct_requests self doc ctx args \<and>
   map_sum id (\<lambda>(m, ex). (map snd m, ex)) (xquad_en_process_results math_exp self doc results) =
   map_sum id (\<lambda>(m, ex). (map snd m, ex)) (xquad_ar_process_results math_exp self doc results) \<and>
   xquad_en_DATASET_PATH = xquad_ar_DATASET_PATH \<and>
   xquad_en_DATASET_NAME \<noteq> xquad_ar_DATASET_NAME \<and>
   map fst (xquad_en_higher_is_better self) \<noteq> map fst (xquad_ar_higher_is_better self)"
  by (simp add: xquad_en_construct_requests_def xquad_ar_construct_requests_def
      xquad_en_process_results_def xquad_ar_process_results_def
      xquad_en_DATASET_PATH_def xquad_ar_DATASET_PATH_def
      xquad_en_DATASET_NAME_def xquad_ar_DATASET_NAME_def
      xquad_en_higher_is_better_def xquad_ar_higher_is_better_def Let_def
      split: sum.splits prod.splits)

end
